theory Spec2Isabelle
  imports Main "HOL-Library.Word"
begin

section \<open>slogpretty: a shallow embedding of the pretty-printing log handler\<close>

text \<open>
  The development follows \<^verbatim>\<open>handler.go\<close> (type \<^verbatim>\<open>SlogPretty\<close>), the options of
  \<^verbatim>\<open>options.go\<close> and the colour helper \<^verbatim>\<open>colorize\<close>. Go strings are byte
  sequences and are modelled as \<^typ>\<open>string\<close>; a \<^verbatim>\<open>[]byte\<close> buffer that is only ever
  appended to is a \<^typ>\<open>string\<close> as well.
\<close>

subsection \<open>Values and attributes of \<^verbatim>\<open>log/slog\<close>\<close>

text \<open>
  A \<^verbatim>\<open>time.Time\<close> is an instant, counted here in nanoseconds from Go's zero time
  (January 1 of year 1, UTC), so that \<^verbatim>\<open>IsZero\<close> is the test for \<open>0\<close>.
\<close>

type_synonym gotime = int

definition IsZero :: "gotime \<Rightarrow> bool" where
  "IsZero t = (t = 0)"

text \<open>
  The dynamic value behind an \<^verbatim>\<open>any\<close>: the nil interface, or some other value, which is
  named by an opaque tag.
\<close>

datatype goany = AnyNil | AnyDyn string

text \<open>
  \<^verbatim>\<open>slog.Attr\<close> and \<^verbatim>\<open>slog.Value\<close>. The kinds are the constructors. A value of kind
  LogValuer holds the valuer object and what its \<^verbatim>\<open>LogValue\<close> method returns
  (\<open>None\<close> when the method panics).
\<close>

datatype Attr = Attr (Key: string) (Value: val)
and val =
    StringValue string
  | Int64Value "64 word"
  | Uint64Value "64 word"
  | Float64Value "64 word"
  | BoolValue bool
  | DurationValue "64 word"
  | TimeValue gotime
  | GroupValue "Attr list"
  | AnyValue goany
  | LogValuerValue goany "val option"

datatype Kind = KindAny | KindBool | KindDuration | KindFloat64 | KindInt64
  | KindString | KindTime | KindUint64 | KindGroup | KindLogValuer

fun Kind_of :: "val \<Rightarrow> Kind" where
  "Kind_of (StringValue _) = KindString"
| "Kind_of (Int64Value _) = KindInt64"
| "Kind_of (Uint64Value _) = KindUint64"
| "Kind_of (Float64Value _) = KindFloat64"
| "Kind_of (BoolValue _) = KindBool"
| "Kind_of (DurationValue _) = KindDuration"
| "Kind_of (TimeValue _) = KindTime"
| "Kind_of (GroupValue _) = KindGroup"
| "Kind_of (AnyValue _) = KindAny"
| "Kind_of (LogValuerValue _ _) = KindLogValuer"

text \<open>
  \<^verbatim>\<open>Value.Resolve\<close>: at most \<^verbatim>\<open>maxLogValues\<close> calls of \<^verbatim>\<open>LogValue\<close>; a value that is
  still to be resolved after them, or a panic of \<^verbatim>\<open>LogValue\<close>, gives an error wrapped
  as a value of kind Any.
\<close>

definition maxLogValues :: nat where
  "maxLogValues = 100"

definition errTooMany :: "goany \<Rightarrow> goany" where
  "errTooMany orig = AnyDyn ''LogValue called too many times''"

definition errPanicked :: goany where
  "errPanicked = AnyDyn ''LogValue panicked''"

fun Any_of :: "val \<Rightarrow> goany" where
  "Any_of (AnyValue x) = x"
| "Any_of (LogValuerValue x _) = x"
| "Any_of v = AnyDyn ''boxed''"

fun resolve_loop :: "nat \<Rightarrow> goany \<Rightarrow> val \<Rightarrow> val" where
  "resolve_loop 0 orig v = AnyValue (errTooMany orig)"
| "resolve_loop (Suc n) orig (LogValuerValue x r) =
     (case r of None \<Rightarrow> AnyValue errPanicked | Some v' \<Rightarrow> resolve_loop n orig v')"
| "resolve_loop (Suc n) orig v = v"

definition Resolve :: "val \<Rightarrow> val" where
  "Resolve v = resolve_loop maxLogValues (Any_of v) v"

text \<open>
  \<^verbatim>\<open>a.Equal(slog.Attr{})\<close>: the keys are compared first, then the values. The zero
  \<^verbatim>\<open>Value\<close> has kind Any and holds the nil interface, so a value equals it exactly when
  it has kind Any and holds nil.
\<close>

fun Value_Equal_zero :: "val \<Rightarrow> bool" where
  "Value_Equal_zero (AnyValue x) = (x = AnyNil)"
| "Value_Equal_zero v = False"

definition Attr_Equal_zero :: "Attr \<Rightarrow> bool" where
  "Attr_Equal_zero a = (Key a = [] \<and> Value_Equal_zero (Value a))"

subsection \<open>Library functions\<close>

text \<open>Decimal formatting, \<^verbatim>\<open>strconv.Itoa\<close> and \<^verbatim>\<open>strconv.FormatInt(_, 10)\<close>.\<close>

function FormatUint :: "nat \<Rightarrow> string" where
  "FormatUint n =
     (if n < 10 then [''0123456789'' ! n]
      else FormatUint (n div 10) @ [''0123456789'' ! (n mod 10)])"
  by pat_completeness auto
termination
  by (relation "measure id") auto

declare FormatUint.simps [simp del]

definition FormatInt :: "int \<Rightarrow> string" where
  "FormatInt i = (if i < 0 then ''-'' @ FormatUint (nat (- i)) else FormatUint (nat i))"

definition Itoa :: "int \<Rightarrow> string" where
  "Itoa i = FormatInt i"

text \<open>
  The functions of the Go library whose results the handler only copies into the output are
  parameters of the model: the layout-driven \<^verbatim>\<open>Time.Format\<close>, the \<^verbatim>\<open>%q\<close> verb
  (\<^verbatim>\<open>strconv.Quote\<close>), the textual forms of floats, durations, times, groups and dynamic
  values, the frame of a program counter and \<^verbatim>\<open>filepath.Base\<close>.
\<close>

record lib =
  Format :: "gotime \<Rightarrow> string \<Rightarrow> string"
  Quote :: "string \<Rightarrow> string"
  FormatFloat :: "64 word \<Rightarrow> string"
  DurationString :: "64 word \<Rightarrow> string"
  TimeString :: "gotime \<Rightarrow> string"
  GroupString :: "Attr list \<Rightarrow> string"
  Sprint :: "goany \<Rightarrow> string"
  Frame :: "nat \<Rightarrow> string \<times> int"
  Base :: "string \<Rightarrow> string"

text \<open>\<^verbatim>\<open>Value.String\<close>, by kind.\<close>

fun Value_String :: "lib \<Rightarrow> val \<Rightarrow> string" where
  "Value_String L (StringValue s) = s"
| "Value_String L (Int64Value w) = FormatInt (sint w)"
| "Value_String L (Uint64Value w) = FormatUint (unat w)"
| "Value_String L (Float64Value w) = FormatFloat L w"
| "Value_String L (BoolValue b) = (if b then ''true'' else ''false'')"
| "Value_String L (DurationValue w) = DurationString L w"
| "Value_String L (TimeValue t) = TimeString L t"
| "Value_String L (GroupValue as) = GroupString L as"
| "Value_String L (AnyValue x) = Sprint L x"
| "Value_String L (LogValuerValue x r) = Sprint L x"

subsection \<open>Colours\<close>

text \<open>
  The colour codes and \<^verbatim>\<open>colorize\<close> are read from the stand-alone handler program of
  the repository, which declares them beside the same handler code; the handler package calls
  them by these names.
\<close>

definition ESC :: char where
  "ESC = CHR 0x1B"

definition reset :: string where
  "reset = ESC # ''[0m''"

definition magenta :: int where "magenta = 35"
definition cyan :: int where "cyan = 36"
definition lightGray :: int where "lightGray = 37"
definition darkGray :: int where "darkGray = 90"
definition lightRed :: int where "lightRed = 91"
definition lightYellow :: int where "lightYellow = 93"
definition lightBlue :: int where "lightBlue = 94"
definition lightMagenta :: int where "lightMagenta = 95"
definition lightCyan :: int where "lightCyan = 96"
definition white :: int where "white = 97"

text \<open>\<^verbatim>\<open>fmt.Sprintf("\033[%sm%s%s", strconv.Itoa(colorCode), v, reset)\<close>\<close>

definition colorize :: "int \<Rightarrow> string \<Rightarrow> string" where
  "colorize colorCode v = ESC # ''['' @ Itoa colorCode @ ''m'' @ v @ reset"

subsection \<open>Options and the handler\<close>

definition DefaultTimeFormat :: string where
  "DefaultTimeFormat = ''2006-01-02 15:04:05.000''"

definition LevelDebug :: int where "LevelDebug = -4"
definition LevelInfo :: int where "LevelInfo = 0"
definition LevelWarn :: int where "LevelWarn = 4"
definition LevelError :: int where "LevelError = 8"

record Options =
  Level :: int
  AddSource :: bool
  Colorful :: bool
  Multiline :: bool
  TimeFormat :: string


record groupOrAttrs =
  group :: string
  attrs :: "Attr list"

text \<open>
  The writer \<^verbatim>\<open>out\<close> and the mutex \<^verbatim>\<open>mu\<close> are references: the value copy
  \<^verbatim>\<open>h2 := *h\<close> of a derivation shares both with the handler it copies.
\<close>

record SlogPretty =
  opts :: Options
  goas :: "groupOrAttrs list"
  out :: nat
  mu :: nat

subsection \<open>The attribute formatter\<close>

function appendAttr :: "lib \<Rightarrow> SlogPretty \<Rightarrow> string \<Rightarrow> Attr \<Rightarrow> bool \<Rightarrow> nat \<Rightarrow> string" where
  "appendAttr L h buf a multiline level =
    (let indent = replicate (2 * level) CHR '' '';
         a = Attr (Key a) (Resolve (Value a))
     in if Attr_Equal_zero a then buf
     else
       let keyColor = (if \<not> Colorful (opts h) then 0 else lightMagenta);
           valColor = (if \<not> Colorful (opts h) then 0 else lightBlue)
       in case Value a of
         StringValue s \<Rightarrow>
           (let val = Value_String L (Value a) in
            if multiline
            then buf @ indent @ colorize keyColor (Key a) @ '': '' @ colorize valColor val @ [CHR 0x0A]
            else buf @ '' '' @ colorize keyColor (Key a) @ ''='' @ colorize valColor (Quote L val))
       | TimeValue t \<Rightarrow>
           (let val = Format L t (TimeFormat (opts h)) in
            if multiline
            then buf @ indent @ colorize keyColor (Key a) @ '': '' @ colorize valColor val @ [CHR 0x0A]
            else buf @ '' '' @ colorize keyColor (Key a) @ ''='' @ colorize valColor (Quote L val))
       | GroupValue as \<Rightarrow>
           (if length as = 0 then buf
            else if multiline
            then foldl (\<lambda>buf ga. appendAttr L h buf ga multiline (level + 1))
                   (buf @ indent @ colorize keyColor (Key a) @ '':'' @ [CHR 0x0A]) as
            else foldl (\<lambda>buf ga. appendAttr L h buf ga multiline 2)
                   (buf @ '' '' @ colorize keyColor (Key a) @ '':'') as)
       | _ \<Rightarrow>
           (let val = Value_String L (Value a) in
            if multiline
            then buf @ indent @ colorize keyColor (Key a) @ '': '' @ colorize valColor val @ [CHR 0x0A]
            else buf @ '' '' @ colorize keyColor (Key a) @ ''='' @ colorize valColor val))"
  by pat_completeness auto
termination
proof -
  have loop: "resolve_loop n orig v = GroupValue as \<Longrightarrow> size_list size as < size v"
    for n orig v as
  proof (induction n orig v rule: resolve_loop.induct)
    case (2 n orig x r)
    then show ?case by (cases r) auto
  qed auto
  have child: "size ga < size v" if "Resolve v = GroupValue as" and "ga \<in> set as"
    for v as ga
  proof -
    have "size_list size as < size v"
      using loop that(1) by (simp add: Resolve_def)
    moreover have "size ga \<le> size_list size as"
      using that(2) by (simp add: size_list_estimation')
    ultimately show ?thesis by simp
  qed
  have attr: "size ga < size a" if "Resolve (Value a) = GroupValue as" and "ga \<in> set as"
    for a as ga
    using child [OF that] by (cases a) simp
  show ?thesis
    by (relation "measure (\<lambda>(L, h, buf, a, multiline, level). size a)")
       (auto dest: attr)
qed

declare appendAttr.simps [simp del]


subsection \<open>Records and the header\<close>

text \<open>
  \<^verbatim>\<open>slog.Record\<close>: time, message, level, program counter of the caller, and the record's
  own attributes in the order in which \<^verbatim>\<open>Record.Attrs\<close> visits them.
\<close>

record Record =
  rTime :: gotime
  rMessage :: string
  rLevel :: int
  rPC :: nat
  rAttrs :: "Attr list"

definition NumAttrs :: "Record \<Rightarrow> nat" where
  "NumAttrs r = length (rAttrs r)"

text \<open>\<^verbatim>\<open>Level.String\<close> of \<^verbatim>\<open>log/slog\<close>; \<open>Level_str\<close> is its local \<^verbatim>\<open>str\<close> with \<^verbatim>\<open>%+d\<close>.\<close>

definition Level_str :: "string \<Rightarrow> int \<Rightarrow> string" where
  "Level_str base v =
     (if v = 0 then base
      else base @ (if 0 \<le> v then ''+'' @ FormatInt v else FormatInt v))"

definition Level_String :: "int \<Rightarrow> string" where
  "Level_String l =
     (if l < LevelInfo then Level_str ''DEBUG'' (l - LevelDebug)
      else if l < LevelWarn then Level_str ''INFO'' (l - LevelInfo)
      else if l < LevelError then Level_str ''WARN'' (l - LevelWarn)
      else Level_str ''ERROR'' (l - LevelError))"

definition setColorLevel :: "SlogPretty \<Rightarrow> int \<Rightarrow> string" where
  "setColorLevel h level =
     (if level = LevelDebug then colorize lightMagenta ''DEBUG''
      else if level = LevelInfo then colorize lightCyan ''INFO''
      else if level = LevelWarn then colorize lightYellow ''WARN''
      else if level = LevelError then colorize lightRed ''ERROR''
      else Level_String level)"

text \<open>
  The verb \<^verbatim>\<open>%-7s\<close>: the string, then spaces up to a width of seven. The width counts
  characters; every string it is applied to here consists of one-byte characters.
\<close>

definition padRight :: "nat \<Rightarrow> string \<Rightarrow> string" where
  "padRight n s = s @ replicate (n - length s) CHR '' ''"

definition appendHeader :: "lib \<Rightarrow> SlogPretty \<Rightarrow> string \<Rightarrow> Record \<Rightarrow> string" where
  "appendHeader L h buf r =
    (let buf =
          (if \<not> IsZero (rTime r)
           then (let timeStr = Format L (rTime r) (TimeFormat (opts h));
                     timeStr = (if Colorful (opts h) then colorize lightGray timeStr else timeStr)
                 in buf @ timeStr @ '' '')
           else buf);
         levelStr = setColorLevel h (rLevel r);
         buf = buf @ padRight 7 levelStr;
         msg = rMessage r;
         msg = colorize white msg;
         buf = buf @ '' '' @ msg
     in if AddSource (opts h) \<and> rPC r \<noteq> 0
        then (let f = Frame L (rPC r);
                  file = Base L (fst f);
                  source = ''source: '' @ file @ '':'' @ FormatInt (snd f);
                  source = (if Colorful (opts h) then colorize darkGray source else source)
              in buf @ '' '' @ source)
        else buf)"

subsection \<open>The chain of bound groups and attributes\<close>

text \<open>
  The loop of \<^verbatim>\<open>removeEmptyGroup\<close>, on the slice: while the slice is not empty and its
  last element has a group name, the slice is cut by one.
\<close>

function popGroups :: "groupOrAttrs list \<Rightarrow> groupOrAttrs list" where
  "popGroups gs =
     (if length gs > 0 \<and> group (gs ! (length gs - 1)) \<noteq> []
      then popGroups (take (length gs - 1) gs)
      else gs)"
  by pat_completeness auto
termination
  by (relation "measure length") auto

declare popGroups.simps [simp del]

text \<open>The method has a pointer receiver: the result is the handler object after the call.\<close>

definition removeEmptyGroup :: "SlogPretty \<Rightarrow> Record \<Rightarrow> SlogPretty" where
  "removeEmptyGroup h r = (if NumAttrs r = 0 then h\<lparr>goas := popGroups (goas h)\<rparr> else h)"

fun multilineGoas :: "lib \<Rightarrow> SlogPretty \<Rightarrow> groupOrAttrs list \<Rightarrow> string \<Rightarrow> nat \<Rightarrow> string" where
  "multilineGoas L h [] buf level = buf"
| "multilineGoas L h (goa # rest) buf level =
     (if group goa \<noteq> []
      then multilineGoas L h rest
             (buf @ concat (replicate level ''  '') @ colorize magenta (group goa) @ '':'')
             (level + 1)
      else multilineGoas L h rest
             (foldl (\<lambda>buf a. appendAttr L h buf a True level)
                (if length (attrs goa) > 0 then buf @ [CHR 0x0A] else buf)
                (attrs goa))
             level)"

definition appendMultilineGroupOrAttrs :: "lib \<Rightarrow> SlogPretty \<Rightarrow> string \<Rightarrow> nat \<Rightarrow> string" where
  "appendMultilineGroupOrAttrs L h buf level = multilineGoas L h (goas h) buf level"

definition appendMultilineAttrs :: "lib \<Rightarrow> SlogPretty \<Rightarrow> string \<Rightarrow> Record \<Rightarrow> string" where
  "appendMultilineAttrs L h buf r =
     (let attrCount = length (rAttrs r)
      in if attrCount = 0 then buf
         else foldl (\<lambda>buf a. appendAttr L h buf a True 1) (buf @ [CHR 0x0A]) (rAttrs r))"

fun inlineGoas :: "lib \<Rightarrow> SlogPretty \<Rightarrow> groupOrAttrs list \<Rightarrow> string \<Rightarrow> string" where
  "inlineGoas L h [] buf = buf"
| "inlineGoas L h (goa # rest) buf =
     (let buf =
           (if group goa \<noteq> []
            then (if Colorful (opts h)
                  then buf @ '' '' @ colorize cyan (group goa) @ '':''
                  else buf @ '' '' @ group goa @ '':'')
            else buf)
      in inlineGoas L h rest (foldl (\<lambda>buf a. appendAttr L h buf a False 0) buf (attrs goa)))"

definition appendInLineAttrs :: "lib \<Rightarrow> SlogPretty \<Rightarrow> string \<Rightarrow> Record \<Rightarrow> string" where
  "appendInLineAttrs L h buf r =
     foldl (\<lambda>buf a. appendAttr L h buf a False 0) (inlineGoas L h (goas h) buf) (rAttrs r)"

subsection \<open>The store, the writer and the mutex\<close>

text \<open>
  Handlers and option structs are objects reached through pointers: a pointer is an index
  into the list of allocated objects, and an index outside of it is the nil pointer. A call
  returns, panics, or blocks on a mutex that is held.
\<close>

datatype 'a outcome = Return 'a | Panic | Blocks

type_synonym error = "string option"

datatype event = EvLock nat | EvWrite nat string | EvUnlock nat

text \<open>
  What \<^verbatim>\<open>Write\<close> of an \<^verbatim>\<open>io.Writer\<close> does is the caller's: it takes a number of
  leading bytes of the buffer and returns that number with an error (or none), or it panics
  after some bytes. The count it returns is dropped by the handler.
\<close>

datatype wres = Wrote nat error | WritePanics nat

fun taken :: "wres \<Rightarrow> nat" where
  "taken (Wrote n err) = n"
| "taken (WritePanics n) = n"

record world =
  handlers :: "SlogPretty list"
  optcells :: "Options list"
  locked :: "nat \<Rightarrow> bool"
  nmutex :: nat
  writer :: "nat \<Rightarrow> event list \<Rightarrow> string \<Rightarrow> wres"
  trace :: "event list"

definition Enabled :: "SlogPretty \<Rightarrow> int \<Rightarrow> bool" where
  "Enabled h level = (level \<ge> Level (opts h))"

text \<open>
  \<^verbatim>\<open>Handle\<close>. The deferred \<^verbatim>\<open>Unlock\<close> runs when \<^verbatim>\<open>Write\<close> has returned and when it
  has panicked.
\<close>

definition Handle :: "lib \<Rightarrow> world \<Rightarrow> nat \<Rightarrow> Record \<Rightarrow> world \<times> error outcome" where
  "Handle L w p r =
    (if p \<ge> length (handlers w) then (w, Panic)
     else
       let h = handlers w ! p;
           buf = [];
           buf = appendHeader L h buf r;
           h = removeEmptyGroup h r;
           w = w\<lparr>handlers := (handlers w)[p := h]\<rparr>;
           buf = (if Multiline (opts h)
                  then appendMultilineAttrs L h (appendMultilineGroupOrAttrs L h buf 1) r
                  else appendInLineAttrs L h buf r);
           buf = buf @ [CHR 0x0A]
       in if locked w (mu h) then (w, Blocks)
          else
            let w = w\<lparr>locked := (locked w)(mu h := True), trace := trace w @ [EvLock (mu h)]\<rparr>;
                res = writer w (out h) (trace w) buf;
                w = w\<lparr>trace := trace w @ [EvWrite (out h) buf]\<rparr>;
                w = w\<lparr>locked := (locked w)(mu h := False), trace := trace w @ [EvUnlock (mu h)]\<rparr>
            in (w, case res of Wrote n err \<Rightarrow> Return err | WritePanics n \<Rightarrow> Panic))"

text \<open>
  What a writer holds after the events of a trace: of every write that went to it, the
  leading bytes that it took. Each write is answered by the writer as \<^verbatim>\<open>Handle\<close> asks it,
  with the events before the write.
\<close>

fun sink_bytes ::
  "(nat \<Rightarrow> event list \<Rightarrow> string \<Rightarrow> wres) \<Rightarrow> nat \<Rightarrow> event list \<Rightarrow> event list \<Rightarrow> string" where
  "sink_bytes wr ref pre [] = []"
| "sink_bytes wr ref pre (EvWrite ref' buf # es) =
     (if ref' = ref then take (taken (wr ref' pre buf)) buf else [])
       @ sink_bytes wr ref (pre @ [EvWrite ref' buf]) es"
| "sink_bytes wr ref pre (EvLock m # es) = sink_bytes wr ref (pre @ [EvLock m]) es"
| "sink_bytes wr ref pre (EvUnlock m # es) = sink_bytes wr ref (pre @ [EvUnlock m]) es"

definition sunk :: "world \<Rightarrow> nat \<Rightarrow> string" where
  "sunk w ref = sink_bytes (writer w) ref [] (trace w)"

text \<open>
  \<^verbatim>\<open>withGroupOrAttrs\<close>: a copy of the handler object with a chain made anew, one longer
  than the receiver's: \<^verbatim>\<open>make\<close>, \<^verbatim>\<open>copy\<close>, and the assignment to the last index.
\<close>

definition zeroGoa :: groupOrAttrs where
  "zeroGoa = \<lparr>group = [], attrs = []\<rparr>"

definition copy_slice :: "'a list \<Rightarrow> 'a list \<Rightarrow> 'a list" where
  "copy_slice dst src =
     (let n = min (length dst) (length src) in take n src @ drop n dst)"

definition withGroupOrAttrs :: "world \<Rightarrow> nat \<Rightarrow> groupOrAttrs \<Rightarrow> world \<times> nat outcome" where
  "withGroupOrAttrs w p goa =
    (if p \<ge> length (handlers w) then (w, Panic)
     else
       let h = handlers w ! p;
           h2 = h;
           g2 = replicate (length (goas h) + 1) zeroGoa;
           g2 = copy_slice g2 (goas h);
           g2 = g2[length g2 - 1 := goa];
           h2 = h2\<lparr>goas := g2\<rparr>
       in (w\<lparr>handlers := handlers w @ [h2]\<rparr>, Return (length (handlers w))))"

definition WithAttrs :: "world \<Rightarrow> nat \<Rightarrow> Attr list \<Rightarrow> world \<times> nat outcome" where
  "WithAttrs w p as =
     (if length as = 0 then (w, Return p)
      else withGroupOrAttrs w p \<lparr>group = [], attrs = as\<rparr>)"

definition WithGroup :: "world \<Rightarrow> nat \<Rightarrow> string \<Rightarrow> world \<times> nat outcome" where
  "WithGroup w p name =
     (if name = [] then (w, Return p)
      else withGroupOrAttrs w p \<lparr>group = name, attrs = []\<rparr>)"


text \<open>
  The caller of a handler, \<^verbatim>\<open>slog.Logger\<close>, asks \<^verbatim>\<open>Enabled\<close> first and calls
  \<^verbatim>\<open>Handle\<close> only for a level that is enabled; it drops the error of \<^verbatim>\<open>Handle\<close>.
  \<open>Logger_log\<close> is that protocol, with the error kept.
\<close>

definition Logger_log :: "lib \<Rightarrow> world \<Rightarrow> nat \<Rightarrow> Record \<Rightarrow> world \<times> error outcome" where
  "Logger_log L w p r =
    (if p \<ge> length (handlers w) then (w, Panic)
     else if \<not> Enabled (handlers w ! p) (rLevel r) then (w, Return None)
     else Handle L w p r)"


text \<open>
  The line that the rendering steps of \<^verbatim>\<open>Handle\<close> build for a handler object with the
  chain \<open>goas h\<close>: header, bound chain, the record's own attributes, line feed.
\<close>

definition rendered_line :: "lib \<Rightarrow> SlogPretty \<Rightarrow> Record \<Rightarrow> string" where
  "rendered_line L h r =
     (if Multiline (opts h)
      then appendMultilineAttrs L h (appendMultilineGroupOrAttrs L h (appendHeader L h [] r) 1) r
      else appendInLineAttrs L h (appendHeader L h [] r) r) @ [CHR 0x0A]"

subsection \<open>Concrete objects for the examples\<close>

text \<open>
  An instance of the library parameters. Its \<open>Quote\<close> is \<^verbatim>\<open>strconv.Quote\<close> on
  strings that need no escaping; the timestamp is the placeholder of the scenarios.
\<close>

definition ex_lib :: lib where
  "ex_lib = \<lparr>Format = (\<lambda>t layout. ''<ts>''),
     Quote = (\<lambda>s. CHR 0x22 # s @ [CHR 0x22]),
     FormatFloat = (\<lambda>w. ''<float>''),
     DurationString = (\<lambda>w. ''<duration>''),
     TimeString = (\<lambda>t. ''<time>''),
     GroupString = (\<lambda>as. ''<group>''),
     Sprint = (\<lambda>x. ''<any>''),
     Frame = (\<lambda>pc. (''/src/main.go'', 10)),
     Base = (\<lambda>f. ''main.go'')\<rparr>"

definition ex_opts :: Options where
  "ex_opts = \<lparr>Level = LevelInfo, AddSource = False, Colorful = False, Multiline = False,
     TimeFormat = DefaultTimeFormat\<rparr>"

definition ex_handler :: SlogPretty where
  "ex_handler = \<lparr>opts = ex_opts, goas = [], out = 0, mu = 0\<rparr>"

definition ex_user_handler :: SlogPretty where
  "ex_user_handler = \<lparr>opts = ex_opts, goas = [\<lparr>group = ''user'', attrs = []\<rparr>], out = 0, mu = 0\<rparr>"

definition ex_world :: world where
  "ex_world = \<lparr>handlers = [ex_handler, ex_user_handler], optcells = [ex_opts\<lparr>TimeFormat := []\<rparr>],
     locked = (\<lambda>m. False), nmutex = 1, writer = (\<lambda>out_ref tr buf. Wrote (length buf) None), trace = []\<rparr>"

definition ex_record :: Record where
  "ex_record = \<lparr>rTime = 1, rMessage = ''Server started'', rLevel = LevelInfo, rPC = 0,
     rAttrs = [Attr ''port'' (Int64Value 8080)]\<rparr>"

definition ex_bare_record :: Record where
  "ex_bare_record = \<lparr>rTime = 1, rMessage = ''ping'', rLevel = LevelInfo, rPC = 0, rAttrs = []\<rparr>"

definition ex_debug_record :: Record where
  "ex_debug_record = \<lparr>rTime = 1, rMessage = ''trace'', rLevel = LevelDebug, rPC = 0, rAttrs = []\<rparr>"

text \<open>The same store with a writer that takes five bytes of every write and fails.\<close>

definition ex_failing_world :: world where
  "ex_failing_world = ex_world\<lparr>writer := (\<lambda>out_ref tr buf. Wrote 5 (Some ''short write''))\<rparr>"

text \<open>A store with handlers in multiline mode, and a record whose only attribute is zero.\<close>

definition ex_ml_opts :: Options where
  "ex_ml_opts = \<lparr>Level = LevelInfo, AddSource = False, Colorful = False, Multiline = True,
     TimeFormat = DefaultTimeFormat\<rparr>"

definition ex_ml_handler :: SlogPretty where
  "ex_ml_handler = \<lparr>opts = ex_ml_opts, goas = [], out = 0, mu = 0\<rparr>"

definition ex_ml_user_handler :: SlogPretty where
  "ex_ml_user_handler = \<lparr>opts = ex_ml_opts,
     goas = [\<lparr>group = ''user'', attrs = []\<rparr>,
             \<lparr>group = [], attrs = [Attr ''id'' (StringValue ''bob'')]\<rparr>],
     out = 0, mu = 0\<rparr>"

definition ex_ml_world :: world where
  "ex_ml_world = \<lparr>handlers = [ex_ml_handler, ex_ml_user_handler], optcells = [],
     locked = (\<lambda>m. False), nmutex = 1, writer = (\<lambda>out_ref tr buf. Wrote (length buf) None),
     trace = []\<rparr>"

definition ex_zero_record :: Record where
  "ex_zero_record = \<lparr>rTime = 1, rMessage = ''ping'', rLevel = LevelInfo, rPC = 0,
     rAttrs = [Attr [] (AnyValue AnyNil)]\<rparr>"

section \<open>Properties\<close>

subsection \<open>Auxiliary facts\<close>


lemma maxLogValues_Suc: "maxLogValues = Suc 99"
  by (simp add: maxLogValues_def)

lemma resolve_loop_id: "Kind_of v \<noteq> KindLogValuer \<Longrightarrow> resolve_loop (Suc n) orig v = v"
  by (cases v) simp_all

lemma Resolve_id: "Kind_of v \<noteq> KindLogValuer \<Longrightarrow> Resolve v = v"
  unfolding Resolve_def maxLogValues_Suc by (rule resolve_loop_id)






lemma appendAttr_String:
  "appendAttr L h buf (Attr k (StringValue s)) ml lvl =
    (if ml
     then buf @ replicate (2 * lvl) CHR '' '' @ colorize (if Colorful (opts h) then lightMagenta else 0) k
           @ '': '' @ colorize (if Colorful (opts h) then lightBlue else 0) s @ [CHR 0x0A]
     else buf @ '' '' @ colorize (if Colorful (opts h) then lightMagenta else 0) k
           @ ''='' @ colorize (if Colorful (opts h) then lightBlue else 0) (Quote L s))"
  by (simp add: appendAttr.simps [of L h buf "Attr k (StringValue s)"] Resolve_id
      Attr_Equal_zero_def)


lemma popGroups_dropWhile:
  "popGroups gs = rev (dropWhile (\<lambda>g. group g \<noteq> []) (rev gs))"
proof (induction gs rule: popGroups.induct)
  case (1 gs)
  show ?case
  proof (cases gs rule: rev_cases)
    case Nil
    then show ?thesis by (subst popGroups.simps) simp
  next
    case (snoc xs x)
    show ?thesis
    proof (cases "group x = []")
      case True
      then show ?thesis using snoc by (subst popGroups.simps) simp
    next
      case False
      have "popGroups gs = popGroups xs"
        using snoc False by (subst popGroups.simps) simp
      also have "\<dots> = rev (dropWhile (\<lambda>g. group g \<noteq> []) (rev xs))"
        using "1.IH" snoc False by simp
      finally show ?thesis using snoc False by simp
    qed
  qed
qed




lemma appendAttr_scalar:
  "Kind_of v \<in> {KindInt64, KindUint64, KindFloat64, KindBool, KindDuration} \<Longrightarrow>
   appendAttr L h buf (Attr k v) ml lvl =
    (if ml
     then buf @ replicate (2 * lvl) CHR '' '' @ colorize (if Colorful (opts h) then lightMagenta else 0) k
           @ '': '' @ colorize (if Colorful (opts h) then lightBlue else 0) (Value_String L v) @ [CHR 0x0A]
     else buf @ '' '' @ colorize (if Colorful (opts h) then lightMagenta else 0) k
           @ ''='' @ colorize (if Colorful (opts h) then lightBlue else 0) (Value_String L v))"
  by (subst appendAttr.simps) (cases v; simp add: Resolve_id Attr_Equal_zero_def Let_def)

lemma appendHeader_opts:
  "opts h1 = opts h2 \<Longrightarrow> appendHeader L h1 buf r = appendHeader L h2 buf r"
  unfolding appendHeader_def setColorLevel_def Let_def by simp

lemma appendHeader_removeEmptyGroup:
  "appendHeader L (removeEmptyGroup h r') buf r = appendHeader L h buf r"
  by (rule appendHeader_opts) (simp add: removeEmptyGroup_def)

lemma Handle_run:
  assumes "p < length (handlers w)" and "\<not> locked w (mu (handlers w ! p))"
  shows "Handle L w p r =
    (let h = handlers w ! p; h' = removeEmptyGroup h r; line = rendered_line L h' r
     in (w\<lparr>handlers := (handlers w)[p := h'],
           locked := (locked w)(mu h := False),
           trace := trace w @ [EvLock (mu h), EvWrite (out h) line, EvUnlock (mu h)]\<rparr>,
         case writer w (out h) (trace w @ [EvLock (mu h)]) line of
           Wrote n err \<Rightarrow> Return err | WritePanics n \<Rightarrow> Panic))"
proof -
  have mu: "mu (removeEmptyGroup h r) = mu h" and out: "out (removeEmptyGroup h r) = out h"
    and opts: "opts (removeEmptyGroup h r) = opts h" for h
    by (simp_all add: removeEmptyGroup_def)
  show ?thesis
    using assms
    by (simp add: Handle_def Let_def rendered_line_def mu out opts appendHeader_removeEmptyGroup)
qed

lemma removeEmptyGroup_goas:
  "goas (removeEmptyGroup h r) =
     (if NumAttrs r = 0 then rev (dropWhile (\<lambda>g. group g \<noteq> []) (rev (goas h))) else goas h)"
  by (simp add: removeEmptyGroup_def popGroups_dropWhile)

lemma removeEmptyGroup_eq:
  "removeEmptyGroup h r = h\<lparr>goas := goas (removeEmptyGroup h r)\<rparr>"
  by (simp add: removeEmptyGroup_def)

lemma rendered_line_last: "last (rendered_line L h r) = CHR 0x0A"
  by (simp add: rendered_line_def)

lemma trailing_markers_split:
  "gs = rev (dropWhile P (rev gs)) @ rev (takeWhile P (rev gs))"
  by (metis rev_append rev_rev_ident takeWhile_dropWhile_id)

lemma trimmed_chain_end:
  "rev (dropWhile P (rev gs)) = [] \<or> \<not> P (last (rev (dropWhile P (rev gs))))"
proof (cases "dropWhile P (rev gs)")
  case Nil
  then show ?thesis by simp
next
  case (Cons a list)
  then have "\<not> P a"
    by (simp add: dropWhile_eq_Cons_conv)
  moreover have "last (rev (dropWhile P (rev gs))) = a"
    by (simp only: Cons rev.simps last_snoc)
  ultimately show ?thesis by (simp only: not_False_eq_True simp_thms)
qed

lemma withGroupOrAttrs_run:
  assumes "p < length (handlers w)"
  shows "withGroupOrAttrs w p goa =
    (w\<lparr>handlers := handlers w @ [(handlers w ! p)\<lparr>goas := goas (handlers w ! p) @ [goa]\<rparr>]\<rparr>,
     Return (length (handlers w)))"
proof -
  have d: "drop n (replicate (Suc n) z) = [z]" for n and z :: groupOrAttrs
    by (induction n) simp_all
  have c: "copy_slice (replicate (length gs + 1) zeroGoa) gs = gs @ [zeroGoa]"
    for gs :: "groupOrAttrs list"
    using d [of "length gs" zeroGoa] by (simp add: copy_slice_def Let_def)
  have "(copy_slice (replicate (length gs + 1) zeroGoa) gs)
          [length (copy_slice (replicate (length gs + 1) zeroGoa) gs) - 1 := goa] = gs @ [goa]"
    for gs :: "groupOrAttrs list"
    by (simp only: c) simp
  then show ?thesis
    using assms by (simp add: withGroupOrAttrs_def Let_def)
qed

text \<open>The example objects, evaluated.\<close>

lemmas ex_defs = ex_lib_def ex_opts_def ex_handler_def ex_user_handler_def ex_record_def
  ex_bare_record_def ex_debug_record_def

lemmas render_defs = rendered_line_def appendInLineAttrs_def appendHeader_def setColorLevel_def
  padRight_def IsZero_def LevelDebug_def LevelInfo_def LevelWarn_def LevelError_def
  appendAttr_scalar Let_def

lemmas colour_defs = colorize_def Itoa_def FormatInt_def FormatUint.simps reset_def
  lightCyan_def white_def lightMagenta_def

lemma ex_line:
  "rendered_line ex_lib ex_handler ex_record =
     ''<ts> '' @ colorize lightCyan ''INFO'' @ '' '' @ colorize white ''Server started''
       @ '' '' @ colorize 0 ''port'' @ ''='' @ colorize 0 ''8080'' @ [CHR 0x0A]"
  by (simp add: ex_defs render_defs colour_defs)

lemma ex_user_line:
  "rendered_line ex_lib ex_user_handler ex_record =
     ''<ts> '' @ colorize lightCyan ''INFO'' @ '' '' @ colorize white ''Server started''
       @ '' user:'' @ '' '' @ colorize 0 ''port'' @ ''='' @ colorize 0 ''8080'' @ [CHR 0x0A]"
  by (simp add: ex_defs render_defs colour_defs)

lemma ex_trimmed_line:
  "rendered_line ex_lib (ex_user_handler\<lparr>goas := []\<rparr>) ex_record =
     ''<ts> '' @ colorize lightCyan ''INFO'' @ '' '' @ colorize white ''Server started''
       @ '' '' @ colorize 0 ''port'' @ ''='' @ colorize 0 ''8080'' @ [CHR 0x0A]"
  by (simp add: ex_defs render_defs colour_defs)

lemma ex_debug_line:
  "rendered_line ex_lib ex_handler ex_debug_record =
     ''<ts> '' @ colorize lightMagenta ''DEBUG'' @ '' '' @ colorize white ''trace'' @ [CHR 0x0A]"
  by (simp add: ex_defs render_defs colour_defs)


lemma ex_world_handlers:
  "handlers ex_world ! 0 = ex_handler" "handlers ex_world ! Suc 0 = ex_user_handler"
  "length (handlers ex_world) = 2" "trace ex_world = []" "locked ex_world m = False"
  "writer ex_world out_ref tr buf = Wrote (length buf) None"
  by (simp_all add: ex_world_def)

lemma ex_handler_fields:
  "mu ex_handler = 0" "out ex_handler = 0" "opts ex_handler = ex_opts" "goas ex_handler = []"
  "mu ex_user_handler = 0" "out ex_user_handler = 0" "opts ex_user_handler = ex_opts"
  "goas ex_user_handler = [\<lparr>group = ''user'', attrs = []\<rparr>]"
  by (simp_all add: ex_handler_def ex_user_handler_def)

lemma ex_removeEmptyGroup:
  "removeEmptyGroup ex_handler r = ex_handler"
  "removeEmptyGroup ex_user_handler ex_record = ex_user_handler"
  "removeEmptyGroup ex_user_handler ex_bare_record = ex_user_handler\<lparr>goas := []\<rparr>"
  "removeEmptyGroup (ex_user_handler\<lparr>goas := []\<rparr>) ex_record = ex_user_handler\<lparr>goas := []\<rparr>"
  by (simp_all add: removeEmptyGroup_def popGroups_dropWhile NumAttrs_def ex_handler_def
      ex_user_handler_def ex_record_def ex_bare_record_def)

lemma ex_Handle_bare:
  "Handle ex_lib ex_world (Suc 0) ex_bare_record =
     (ex_world\<lparr>handlers := [ex_handler, ex_user_handler\<lparr>goas := []\<rparr>],
        trace := [EvLock 0,
                  EvWrite 0 (rendered_line ex_lib (ex_user_handler\<lparr>goas := []\<rparr>) ex_bare_record),
                  EvUnlock 0]\<rparr>,
      Return None)"
proof -
  have "(locked ex_world)(0 := False) = locked ex_world"
    by (simp add: ex_world_def fun_eq_iff)
  moreover have "(handlers ex_world)[Suc 0 := h] = [ex_handler, h]" for h
    by (simp add: ex_world_def)
  ultimately show ?thesis
    by (simp add: Handle_run ex_world_handlers ex_handler_fields ex_removeEmptyGroup Let_def)
qed

text \<open>Every rendering step appends to the buffer it is given.\<close>

lemma size_resolve_loop:
  "resolve_loop n orig v = GroupValue as \<Longrightarrow> size_list size as < size v"
proof (induction n orig v rule: resolve_loop.induct)
  case (2 n orig x r)
  then show ?case by (cases r) auto
qed auto

lemma size_Resolve_child:
  assumes "Resolve (Value a) = GroupValue as" and "ga \<in> set as"
  shows "size ga < size a"
proof -
  have "size_list size as < size (Value a)"
    using size_resolve_loop assms(1) by (simp add: Resolve_def)
  moreover have "size ga \<le> size_list size as"
    using assms(2) by (simp add: size_list_estimation')
  moreover have "size (Value a) < size a"
    by (cases a) simp
  ultimately show ?thesis by simp
qed

lemma foldl_append_buf:
  "(\<And>b x. x \<in> set xs \<Longrightarrow> f b x = b @ g x) \<Longrightarrow> foldl f b xs = b @ concat (map g xs)"
proof (induction xs arbitrary: b)
  case Nil
  then show ?case by simp
next
  case (Cons x xs)
  have "foldl f b (x # xs) = foldl f (f b x) xs" by simp
  also have "\<dots> = f b x @ concat (map g xs)"
    using Cons by simp
  also have "f b x = b @ g x"
    using Cons.prems by simp
  finally show ?case by simp
qed

lemma appendAttr_group_ml:
  assumes "Resolve (Value a) = GroupValue as" and "as \<noteq> []"
  shows "appendAttr L h buf a True lvl =
     foldl (\<lambda>b ga. appendAttr L h b ga True (Suc lvl))
       (buf @ replicate (2 * lvl) CHR '' ''
          @ colorize (if Colorful (opts h) then lightMagenta else 0) (Key a) @ '':'' @ [CHR 0x0A]) as"
  using assms
  by (simp add: appendAttr.simps [of L h buf a] Let_def Attr_Equal_zero_def)

lemma appendAttr_group_il:
  assumes "Resolve (Value a) = GroupValue as" and "as \<noteq> []"
  shows "appendAttr L h buf a False lvl =
     foldl (\<lambda>b ga. appendAttr L h b ga False 2)
       (buf @ '' '' @ colorize (if Colorful (opts h) then lightMagenta else 0) (Key a) @ '':'') as"
  using assms
  by (simp add: appendAttr.simps [of L h buf a] Let_def Attr_Equal_zero_def)

lemma appendAttr_nongroup:
  assumes "Kind_of (Resolve (Value a)) \<noteq> KindGroup \<or> Resolve (Value a) = GroupValue []"
  shows "appendAttr L h buf a ml lvl = buf @ appendAttr L h [] a ml lvl"
  using assms
  by (cases "Resolve (Value a)")
     (simp_all add: appendAttr.simps [of L h buf a] appendAttr.simps [of L h "[]" a] Let_def)


lemma appendAttr_append:
  "appendAttr L h buf a ml lvl = buf @ appendAttr L h [] a ml lvl"
proof (induction "size a" arbitrary: a buf lvl rule: less_induct)
  case less
  show ?case
  proof (cases "\<exists>as. Resolve (Value a) = GroupValue as \<and> as \<noteq> []")
    case False
    then have "Kind_of (Resolve (Value a)) \<noteq> KindGroup \<or> Resolve (Value a) = GroupValue []"
      by (cases "Resolve (Value a)") auto
    then show ?thesis by (rule appendAttr_nongroup)
  next
    case True
    then obtain as where g: "Resolve (Value a) = GroupValue as" and ne: "as \<noteq> []"
      by blast
    have ih: "appendAttr L h b ga ml l = b @ appendAttr L h [] ga ml l"
      if "ga \<in> set as" for b ga l
      using less [of ga b l] size_Resolve_child [OF g that] by blast
    have f: "foldl (\<lambda>b ga. appendAttr L h b ga ml l) b as =
        b @ concat (map (\<lambda>ga. appendAttr L h [] ga ml l) as)" for b l
      by (rule foldl_append_buf) (rule ih)
    show ?thesis
    proof (cases ml)
      case True
      then have m: "ml = True" by simp
      show ?thesis
        unfolding m appendAttr_group_ml [OF g ne] f [unfolded m] by simp
    next
      case False
      then have m: "ml = False" by simp
      show ?thesis
        unfolding m appendAttr_group_il [OF g ne] f [unfolded m] by simp
    qed
  qed
qed

lemma foldl_appendAttr:
  "foldl (\<lambda>b a. appendAttr L h b a ml lvl) buf as =
     buf @ concat (map (\<lambda>a. appendAttr L h [] a ml lvl) as)"
  by (rule foldl_append_buf) (rule appendAttr_append)




lemma multilineGoas_append:
  "multilineGoas L h gs buf lvl = buf @ multilineGoas L h gs [] lvl"
proof (induction gs arbitrary: buf lvl)
  case Nil
  show ?case by simp
next
  case (Cons goa gs)
  define piece where "piece = (if group goa \<noteq> []
      then concat (replicate lvl ''  '') @ colorize magenta (group goa) @ '':''
      else (if length (attrs goa) > 0 then [CHR 0x0A] else [])
           @ concat (map (\<lambda>a. appendAttr L h [] a True lvl) (attrs goa)))"
  define lvl' where "lvl' = (if group goa \<noteq> [] then lvl + 1 else lvl)"
  have e: "multilineGoas L h (goa # gs) b lvl = multilineGoas L h gs (b @ piece) lvl'" for b
    by (simp add: piece_def lvl'_def foldl_appendAttr)
  show ?case
    unfolding e using Cons [of "buf @ piece" lvl'] Cons [of piece lvl'] by simp
qed

lemma inlineGoas_append:
  "inlineGoas L h gs buf = buf @ inlineGoas L h gs []"
proof (induction gs arbitrary: buf)
  case Nil
  show ?case by simp
next
  case (Cons goa gs)
  define lab where "lab = (if group goa \<noteq> []
      then (if Colorful (opts h) then '' '' @ colorize cyan (group goa) @ '':''
            else '' '' @ group goa @ '':'')
      else [])"
  have e: "inlineGoas L h (goa # gs) b =
      inlineGoas L h gs (b @ lab @ concat (map (\<lambda>a. appendAttr L h [] a False 0) (attrs goa)))"
    for b
    by (simp add: lab_def Let_def foldl_appendAttr)
  show ?case
    unfolding e
    using Cons [of "buf @ lab @ concat (map (\<lambda>a. appendAttr L h [] a False 0) (attrs goa))"]
      Cons [of "lab @ concat (map (\<lambda>a. appendAttr L h [] a False 0) (attrs goa))"]
    by simp
qed

lemma rendered_line_parts:
  "rendered_line L h r =
     appendHeader L h [] r
     @ (if Multiline (opts h)
        then multilineGoas L h (goas h) [] 1
             @ (if rAttrs r = [] then []
                else CHR 0x0A # concat (map (\<lambda>a. appendAttr L h [] a True 1) (rAttrs r)))
        else inlineGoas L h (goas h) []
             @ concat (map (\<lambda>a. appendAttr L h [] a False 0) (rAttrs r)))
     @ [CHR 0x0A]"
proof -
  have m: "multilineGoas L h (goas h) (appendHeader L h [] r) 1 =
      appendHeader L h [] r @ multilineGoas L h (goas h) [] 1"
    by (rule multilineGoas_append)
  have i: "inlineGoas L h (goas h) (appendHeader L h [] r) =
      appendHeader L h [] r @ inlineGoas L h (goas h) []"
    by (rule inlineGoas_append)
  show ?thesis
    by (simp add: rendered_line_def appendMultilineAttrs_def appendMultilineGroupOrAttrs_def
        appendInLineAttrs_def Let_def foldl_appendAttr i
        multilineGoas_append [of _ _ _ "appendHeader L h [] r"])
qed

text \<open>What the writer holds after a call of \<^verbatim>\<open>Handle\<close>; the multiline examples.\<close>

lemma sink_bytes_append:
  "sink_bytes wr ref pre (es1 @ es2) =
     sink_bytes wr ref pre es1 @ sink_bytes wr ref (pre @ es1) es2"
proof (induction es1 arbitrary: pre)
  case Nil
  show ?case by simp
next
  case (Cons e es1)
  show ?case
    using Cons [of "pre @ [e]"] by (cases e) simp_all
qed

lemma sunk_Handle:
  assumes "p < length (handlers w)" and "\<not> locked w (mu (handlers w ! p))"
  shows "sunk (fst (Handle L w p r)) ref =
     sunk w ref @
     (if ref = out (handlers w ! p)
      then take (taken (writer w (out (handlers w ! p)) (trace w @ [EvLock (mu (handlers w ! p))])
                   (rendered_line L (removeEmptyGroup (handlers w ! p) r) r)))
             (rendered_line L (removeEmptyGroup (handlers w ! p) r) r)
      else [])"
  using assms by (simp add: Handle_run Let_def sunk_def sink_bytes_append)

lemma opts_removeEmptyGroup: "opts (removeEmptyGroup h r) = opts h"
  by (simp add: removeEmptyGroup_def)

lemma ex_ml_world_handlers:
  "handlers ex_ml_world ! 0 = ex_ml_handler" "handlers ex_ml_world ! Suc 0 = ex_ml_user_handler"
  "length (handlers ex_ml_world) = 2" "trace ex_ml_world = []" "locked ex_ml_world m = False"
  "writer ex_ml_world out_ref tr buf = Wrote (length buf) None"
  by (simp_all add: ex_ml_world_def)

lemma ex_ml_handler_fields:
  "mu ex_ml_handler = 0" "out ex_ml_handler = 0" "opts ex_ml_handler = ex_ml_opts"
  "goas ex_ml_handler = []"
  "mu ex_ml_user_handler = 0" "out ex_ml_user_handler = 0" "opts ex_ml_user_handler = ex_ml_opts"
  by (simp_all add: ex_ml_handler_def ex_ml_user_handler_def)

lemmas ex_ml_defs = ex_ml_opts_def ex_ml_handler_def ex_ml_user_handler_def ex_zero_record_def

lemmas render_ml_defs = rendered_line_def appendMultilineAttrs_def
  appendMultilineGroupOrAttrs_def appendAttr_String magenta_def

lemma ex_ml_user_line:
  "rendered_line ex_lib ex_ml_user_handler ex_record =
     ''<ts> '' @ colorize lightCyan ''INFO'' @ '' '' @ colorize white ''Server started''
       @ ''  '' @ colorize magenta ''user'' @ '':'' @ [CHR 0x0A]
       @ ''    '' @ colorize 0 ''id'' @ '': '' @ colorize 0 ''bob'' @ [CHR 0x0A]
       @ [CHR 0x0A] @ ''  '' @ colorize 0 ''port'' @ '': '' @ colorize 0 ''8080'' @ [CHR 0x0A]
       @ [CHR 0x0A]"
  by (simp add: ex_defs ex_ml_defs render_defs render_ml_defs colour_defs numeral_2_eq_2)





















subsection \<open>The attribute formatter: claims\<close>

text \<open>
  C5, as stated: a string value is quoted in multiline mode as well. The multiline line for
  \<open>user = bob\<close> holds the bare text \<open>bob\<close> and no quotation mark at all.
\<close>

theorem string_multiline_unquoted_counterexample:
  "appendAttr ex_lib ex_handler [] (Attr ''user'' (StringValue ''bob'')) True 1
     = ''  '' @ colorize 0 ''user'' @ '': '' @ colorize 0 ''bob'' @ [CHR 0x0A]
   \<and> appendAttr ex_lib ex_handler [] (Attr ''user'' (StringValue ''bob'')) True 1
     \<noteq> ''  '' @ colorize 0 ''user'' @ '': '' @ colorize 0 (Quote ex_lib ''bob'') @ [CHR 0x0A]
   \<and> CHR 0x22 \<notin> set (appendAttr ex_lib ex_handler [] (Attr ''user'' (StringValue ''bob'')) True 1)"
  by (simp add: appendAttr_String ex_handler_def ex_opts_def ex_lib_def colorize_def Itoa_def
      FormatInt_def FormatUint.simps reset_def ESC_def numeral_2_eq_2)

text \<open>
  C5, amended. A string value is quoted (verb \<^verbatim>\<open>%q\<close>) in inline mode; in multiline mode
  it is written as it is, without quotation marks, like a time value.
\<close>

theorem string_quoted_inline_only:
  "appendAttr L h buf (Attr k (StringValue s)) False lvl
     = buf @ '' '' @ colorize (if Colorful (opts h) then lightMagenta else 0) k
         @ ''='' @ colorize (if Colorful (opts h) then lightBlue else 0) (Quote L s)
   \<and> appendAttr L h buf (Attr k (StringValue s)) True lvl
     = buf @ replicate (2 * lvl) CHR '' '' @ colorize (if Colorful (opts h) then lightMagenta else 0) k
         @ '': '' @ colorize (if Colorful (opts h) then lightBlue else 0) s @ [CHR 0x0A]"
  by (simp add: appendAttr_String)

subsection \<open>The chain at a render call\<close>

text \<open>
  C6. For a record without attributes of its own, the chain with which \<^verbatim>\<open>Handle\<close> renders
  is the stored chain without its trailing group markers: what is cut off are markers only,
  and the cut stops at the start of the chain or at an element that is no marker (a batch of
  attributes). For a record with attributes the chain is the stored one. The line that is
  written is the one rendered with that chain.
\<close>

theorem effective_chain_drops_trailing_group_markers:
  assumes "p < length (handlers w)" and "\<not> locked w (mu (handlers w ! p))"
  shows "let h = handlers w ! p;
             eff = (if NumAttrs r = 0
                    then rev (dropWhile (\<lambda>g. group g \<noteq> []) (rev (goas h)))
                    else goas h)
         in goas (removeEmptyGroup h r) = eff
          \<and> trace (fst (Handle L w p r)) =
              trace w @ [EvLock (mu h), EvWrite (out h) (rendered_line L (h\<lparr>goas := eff\<rparr>) r),
                         EvUnlock (mu h)]
          \<and> goas h = eff @ (if NumAttrs r = 0
                            then rev (takeWhile (\<lambda>g. group g \<noteq> []) (rev (goas h))) else [])
          \<and> (NumAttrs r \<noteq> 0 \<or> eff = [] \<or> group (last eff) = [])"
proof -
  let ?h = "handlers w ! p"
  let ?P = "\<lambda>g. group g \<noteq> []"
  have a: "removeEmptyGroup ?h r = ?h\<lparr>goas := goas (removeEmptyGroup ?h r)\<rparr>"
    by (rule removeEmptyGroup_eq)
  have b: "trace (fst (Handle L w p r)) =
      trace w @ [EvLock (mu ?h), EvWrite (out ?h) (rendered_line L (removeEmptyGroup ?h r) r),
                 EvUnlock (mu ?h)]"
    using assms by (simp add: Handle_run Let_def)
  have c: "goas ?h = rev (dropWhile ?P (rev (goas ?h))) @ rev (takeWhile ?P (rev (goas ?h)))"
    by (rule trailing_markers_split)
  have d: "rev (dropWhile ?P (rev (goas ?h))) = []
      \<or> group (last (rev (dropWhile ?P (rev (goas ?h))))) = []"
    using trimmed_chain_end [of ?P "goas ?h"] by simp
  show ?thesis
    unfolding Let_def
    using a b c d by (simp add: removeEmptyGroup_goas)
qed

text \<open>
  The handler bound to the group \<open>user\<close> alone renders a record without attributes with
  the empty chain.
\<close>

theorem effective_chain_drops_trailing_group_markers_witness:
  "Suc 0 < length (handlers ex_world)
   \<and> \<not> locked ex_world (mu (handlers ex_world ! Suc 0))
   \<and> NumAttrs ex_bare_record = 0
   \<and> goas (handlers ex_world ! Suc 0) = [\<lparr>group = ''user'', attrs = []\<rparr>]
   \<and> goas (removeEmptyGroup (handlers ex_world ! Suc 0) ex_bare_record) = []
   \<and> trace (fst (Handle ex_lib ex_world (Suc 0) ex_bare_record)) =
       [EvLock 0, EvWrite 0 (rendered_line ex_lib (ex_user_handler\<lparr>goas := []\<rparr>) ex_bare_record),
        EvUnlock 0]"
proof -
  have p: "Suc 0 < length (handlers ex_world)"
    by (simp add: ex_world_def)
  have m: "\<not> locked ex_world (mu (handlers ex_world ! Suc 0))"
    by (simp add: ex_world_def)
  have h: "handlers ex_world ! Suc 0 = ex_user_handler"
    by (simp add: ex_world_def)
  have n: "NumAttrs ex_bare_record = 0"
    by (simp add: NumAttrs_def ex_bare_record_def)
  have g: "goas ex_user_handler = [\<lparr>group = ''user'', attrs = []\<rparr>]"
    and mo: "mu ex_user_handler = 0" "out ex_user_handler = 0"
    by (simp_all add: ex_user_handler_def)
  have t: "trace ex_world = []"
    by (simp add: ex_world_def)
  show ?thesis
    using effective_chain_drops_trailing_group_markers [OF p m, of ex_bare_record ex_lib] p m
    by (simp add: Let_def h n g mo t)
qed

subsection \<open>Derivation and construction\<close>

text \<open>
  C3. On a handler object \<open>p\<close>: \<^verbatim>\<open>WithAttrs\<close> with no attributes and \<^verbatim>\<open>WithGroup\<close> with
  the empty name return \<open>p\<close> itself and change nothing. With a batch that is not empty, or
  a name that is not empty, they allocate a new handler object, a copy of the receiver whose
  chain is the receiver's chain with that one element appended (so one longer); the receiver
  object, and with it its chain, is as it was.
\<close>

theorem derivation_appends_one_element:
  assumes "p < length (handlers w)"
  shows "WithAttrs w p [] = (w, Return p)
   \<and> WithGroup w p [] = (w, Return p)
   \<and> (as \<noteq> [] \<longrightarrow>
        WithAttrs w p as =
          (w\<lparr>handlers := handlers w @
               [(handlers w ! p)\<lparr>goas := goas (handlers w ! p) @ [\<lparr>group = [], attrs = as\<rparr>]\<rparr>]\<rparr>,
           Return (length (handlers w)))
        \<and> length (goas (handlers (fst (WithAttrs w p as)) ! length (handlers w)))
            = length (goas (handlers w ! p)) + 1
        \<and> handlers (fst (WithAttrs w p as)) ! p = handlers w ! p)
   \<and> (name \<noteq> [] \<longrightarrow>
        WithGroup w p name =
          (w\<lparr>handlers := handlers w @
               [(handlers w ! p)\<lparr>goas := goas (handlers w ! p) @ [\<lparr>group = name, attrs = []\<rparr>]\<rparr>]\<rparr>,
           Return (length (handlers w)))
        \<and> length (goas (handlers (fst (WithGroup w p name)) ! length (handlers w)))
            = length (goas (handlers w ! p)) + 1
        \<and> handlers (fst (WithGroup w p name)) ! p = handlers w ! p)"
  using assms
  by (simp add: WithAttrs_def WithGroup_def withGroupOrAttrs_run nth_append)

text \<open>Derivations from the handler with the empty chain.\<close>

theorem derivation_appends_one_element_witness:
  "0 < length (handlers ex_world)
   \<and> [Attr ''id'' (StringValue ''bob'')] \<noteq> []
   \<and> ''user'' \<noteq> []
   \<and> WithAttrs ex_world 0 [] = (ex_world, Return 0)
   \<and> snd (WithAttrs ex_world 0 [Attr ''id'' (StringValue ''bob'')]) = Return 2
   \<and> goas (handlers (fst (WithAttrs ex_world 0 [Attr ''id'' (StringValue ''bob'')])) ! 2)
       = [\<lparr>group = [], attrs = [Attr ''id'' (StringValue ''bob'')]\<rparr>]
   \<and> goas (handlers (fst (WithGroup ex_world 0 ''user'')) ! 2) = [\<lparr>group = ''user'', attrs = []\<rparr>]
   \<and> handlers (fst (WithGroup ex_world 0 ''user'')) ! 0 = ex_handler"
proof -
  have p: "0 < length (handlers ex_world)"
    by (simp add: ex_world_def)
  have h: "handlers ex_world ! 0 = ex_handler" and n: "length (handlers ex_world) = 2"
    by (simp_all add: ex_world_def)
  have g: "goas ex_handler = []"
    by (simp add: ex_handler_def)
  show ?thesis
    using derivation_appends_one_element
      [OF p, of "[Attr ''id'' (StringValue ''bob'')]" "''user''"] p
    by (simp add: h n g) (simp add: ex_world_def)
qed



subsection \<open>The level threshold\<close>

text \<open>
  C4, as stated: \<^verbatim>\<open>Handle\<close> writes nothing for a record below the threshold. The handler
  with threshold Info, given a Debug record, writes the whole line and returns no error:
  \<^verbatim>\<open>Handle\<close> does not look at the level.
\<close>

theorem Handle_ignores_threshold_counterexample:
  "rLevel ex_debug_record < Level (opts (handlers ex_world ! 0))
   \<and> trace ex_world = []
   \<and> Handle ex_lib ex_world 0 ex_debug_record =
       (ex_world\<lparr>trace :=
          [EvLock 0,
           EvWrite 0 (''<ts> '' @ colorize lightMagenta ''DEBUG'' @ '' '' @ colorize white ''trace''
                       @ [CHR 0x0A]),
           EvUnlock 0]\<rparr>,
        Return None)"
proof -
  have "Handle ex_lib ex_world 0 ex_debug_record =
      (ex_world\<lparr>handlers := (handlers ex_world)[0 := ex_handler],
         locked := (locked ex_world)(0 := False),
         trace := [EvLock 0, EvWrite 0 (rendered_line ex_lib ex_handler ex_debug_record),
                   EvUnlock 0]\<rparr>,
       Return None)"
    by (simp add: Handle_run ex_world_handlers ex_handler_fields ex_removeEmptyGroup Let_def)
  moreover have "(handlers ex_world)[0 := ex_handler] = handlers ex_world"
    and "(locked ex_world)(0 := False) = locked ex_world"
    by (simp_all add: ex_world_def fun_eq_iff)
  ultimately show ?thesis
    by (simp add: ex_debug_line ex_world_handlers ex_handler_fields)
       (simp add: ex_opts_def ex_debug_record_def LevelDebug_def LevelInfo_def)
qed

text \<open>
  C4, amended. For a record below the threshold \<^verbatim>\<open>Enabled\<close> is false, and the threshold
  is applied by the caller: the logger, which calls \<^verbatim>\<open>Handle\<close> only when \<^verbatim>\<open>Enabled\<close>
  holds, leaves the store, the writer and the mutex untouched and reports no error.
\<close>

theorem below_threshold_rejected_by_Enabled:
  assumes "p < length (handlers w)" and "rLevel r < Level (opts (handlers w ! p))"
  shows "\<not> Enabled (handlers w ! p) (rLevel r) \<and> Logger_log L w p r = (w, Return None)"
  using assms by (simp add: Enabled_def Logger_log_def)

text \<open>The Debug record at the handler with threshold Info.\<close>

theorem below_threshold_rejected_by_Enabled_witness:
  "0 < length (handlers ex_world)
   \<and> rLevel ex_debug_record < Level (opts (handlers ex_world ! 0))
   \<and> \<not> Enabled (handlers ex_world ! 0) (rLevel ex_debug_record)
   \<and> Logger_log ex_lib ex_world 0 ex_debug_record = (ex_world, Return None)"
proof -
  have p: "0 < length (handlers ex_world)"
    by (simp add: ex_world_handlers)
  have l: "rLevel ex_debug_record < Level (opts (handlers ex_world ! 0))"
    by (simp add: ex_world_handlers ex_handler_fields ex_opts_def ex_debug_record_def
        LevelDebug_def LevelInfo_def)
  from below_threshold_rejected_by_Enabled [OF p l, of ex_lib] p l
  show ?thesis by blast
qed


subsection \<open>Where the code departs from its description\<close>

text \<open>
  C1. The trimming of a render call is written to the handler object. The handler bound to
  the group \<open>user\<close> has lost that group once it has handled a record without attributes:
  the record with \<open>port\<close>, which it renders under \<open>user:\<close> before, is rendered without the
  label after, and a derivation made after starts from the empty chain.
\<close>

theorem render_trims_the_stored_chain:
  "goas (handlers ex_world ! Suc 0) = [\<lparr>group = ''user'', attrs = []\<rparr>]
   \<and> NumAttrs ex_bare_record = 0
   \<and> goas (handlers (fst (Handle ex_lib ex_world (Suc 0) ex_bare_record)) ! Suc 0) = []
   \<and> trace (fst (Handle ex_lib ex_world (Suc 0) ex_record)) =
       [EvLock 0,
        EvWrite 0 (''<ts> '' @ colorize lightCyan ''INFO'' @ '' '' @ colorize white ''Server started''
                    @ '' user:'' @ '' '' @ colorize 0 ''port'' @ ''='' @ colorize 0 ''8080''
                    @ [CHR 0x0A]),
        EvUnlock 0]
   \<and> drop 3 (trace (fst (Handle ex_lib (fst (Handle ex_lib ex_world (Suc 0) ex_bare_record))
                             (Suc 0) ex_record))) =
       [EvLock 0,
        EvWrite 0 (''<ts> '' @ colorize lightCyan ''INFO'' @ '' '' @ colorize white ''Server started''
                    @ '' '' @ colorize 0 ''port'' @ ''='' @ colorize 0 ''8080'' @ [CHR 0x0A]),
        EvUnlock 0]
   \<and> goas (handlers (fst (WithAttrs (fst (Handle ex_lib ex_world (Suc 0) ex_bare_record)) (Suc 0)
                             [Attr ''id'' (StringValue ''bob'')])) ! 2) =
       [\<lparr>group = [], attrs = [Attr ''id'' (StringValue ''bob'')]\<rparr>]"
proof -
  have a: "trace (fst (Handle ex_lib ex_world (Suc 0) ex_record)) =
      [EvLock 0, EvWrite 0 (rendered_line ex_lib ex_user_handler ex_record), EvUnlock 0]"
    by (simp add: Handle_run ex_world_handlers ex_handler_fields ex_removeEmptyGroup Let_def)
  have b: "drop 3 (trace (fst (Handle ex_lib (fst (Handle ex_lib ex_world (Suc 0) ex_bare_record))
                             (Suc 0) ex_record))) =
      [EvLock 0, EvWrite 0 (rendered_line ex_lib (ex_user_handler\<lparr>goas := []\<rparr>) ex_record),
       EvUnlock 0]"
    by (simp add: ex_Handle_bare Handle_run ex_world_handlers ex_handler_fields
        ex_removeEmptyGroup Let_def)
  have c: "goas (handlers (fst (WithAttrs (fst (Handle ex_lib ex_world (Suc 0) ex_bare_record))
                             (Suc 0) [Attr ''id'' (StringValue ''bob'')])) ! 2) =
      [\<lparr>group = [], attrs = [Attr ''id'' (StringValue ''bob'')]\<rparr>]"
    by (simp add: ex_Handle_bare WithAttrs_def withGroupOrAttrs_run)
  have d: "goas (handlers (fst (Handle ex_lib ex_world (Suc 0) ex_bare_record)) ! Suc 0) = []"
    by (simp add: ex_Handle_bare)
  have e: "NumAttrs ex_bare_record = 0"
    by (simp add: NumAttrs_def ex_bare_record_def)
  show ?thesis
    by (simp add: a b c d e ex_user_line ex_trimmed_line ex_world_handlers ex_handler_fields)
qed

text \<open>
  C2. With \<open>Colorful\<close> and \<open>Multiline\<close> off, the line for the record with message
  \<open>Server started\<close> and attribute \<open>port=8080\<close> still holds escape sequences: level and
  message are wrapped in their colours whatever the option says, key and value are wrapped with
  colour code 0, and the padding to seven columns, which counts the escape sequences, adds
  no space after the level.
\<close>

theorem plain_line_keeps_escape_sequences:
  "\<not> Colorful (opts ex_handler) \<and> \<not> Multiline (opts ex_handler)
   \<and> trace (fst (Handle ex_lib ex_world 0 ex_record)) =
       [EvLock 0,
        EvWrite 0 (''<ts> '' @ ESC # ''[96mINFO'' @ ESC # ''[0m '' @ ESC # ''[97mServer started''
                    @ ESC # ''[0m '' @ ESC # ''[0mport'' @ ESC # ''[0m='' @ ESC # ''[0m8080''
                    @ ESC # ''[0m'' @ [CHR 0x0A]),
        EvUnlock 0]
   \<and> rendered_line ex_lib ex_handler ex_record \<noteq> ''<ts> INFO    Server started port=8080'' @ [CHR 0x0A]
   \<and> ESC \<in> set (rendered_line ex_lib ex_handler ex_record)"
proof -
  have a: "trace (fst (Handle ex_lib ex_world 0 ex_record)) =
      [EvLock 0, EvWrite 0 (rendered_line ex_lib ex_handler ex_record), EvUnlock 0]"
    by (simp add: Handle_run ex_world_handlers ex_handler_fields ex_removeEmptyGroup Let_def)
  show ?thesis
    by (simp add: a ex_line ex_handler_fields)
       (simp add: ex_opts_def colour_defs ESC_def)
qed

subsection \<open>Writing the line\<close>

text \<open>
  C9, as stated: a failure of the writer never leaves a part of the line behind. A writer
  that takes five bytes and then fails holds those five bytes of the line, and \<^verbatim>\<open>Handle\<close>
  returns its error.
\<close>

theorem failing_writer_leaves_part_of_line_counterexample:
  "snd (Handle ex_lib ex_failing_world 0 ex_record) = Return (Some ''short write'')
   \<and> sunk ex_failing_world 0 = []
   \<and> trace (fst (Handle ex_lib ex_failing_world 0 ex_record)) =
       [EvLock 0,
        EvWrite 0 (''<ts> '' @ colorize lightCyan ''INFO'' @ '' '' @ colorize white ''Server started''
                    @ '' '' @ colorize 0 ''port'' @ ''='' @ colorize 0 ''8080'' @ [CHR 0x0A]),
        EvUnlock 0]
   \<and> sunk (fst (Handle ex_lib ex_failing_world 0 ex_record)) 0 = ''<ts> ''"
proof -
  have p: "0 < length (handlers ex_failing_world)"
    and m: "\<not> locked ex_failing_world (mu (handlers ex_failing_world ! 0))"
    and h: "handlers ex_failing_world ! 0 = ex_handler"
    and t: "trace ex_failing_world = []"
    and wr: "writer ex_failing_world ref tr buf = Wrote 5 (Some ''short write'')" for ref tr buf
    by (simp_all add: ex_failing_world_def ex_world_def)
  have s0: "sunk ex_failing_world 0 = []"
    by (simp add: sunk_def t)
  have a: "snd (Handle ex_lib ex_failing_world 0 ex_record) = Return (Some ''short write'')"
    and b: "trace (fst (Handle ex_lib ex_failing_world 0 ex_record)) =
      [EvLock 0, EvWrite 0 (rendered_line ex_lib ex_handler ex_record), EvUnlock 0]"
    using p m by (simp_all add: Handle_run Let_def h t wr ex_removeEmptyGroup ex_handler_fields)
  have c: "sunk (fst (Handle ex_lib ex_failing_world 0 ex_record)) 0 =
      take 5 (rendered_line ex_lib ex_handler ex_record)"
    using p m by (simp add: sunk_Handle h t wr ex_removeEmptyGroup ex_handler_fields s0)
  show ?thesis
    by (simp add: a b c s0 ex_line)
qed

text \<open>
  C9, amended. \<^verbatim>\<open>Handle\<close>, called on a handler whose mutex is free, builds the whole line
  first: the header, the bound chain as trimmed for this record, every attribute of the
  record in order, and the line feed. Its events are the lock, one write call with that whole
  line, and the unlock, so that the mutex is free again whether the write returned or
  panicked; it returns the error of that one call as it is, and calls the writer no second
  time. Of the line the writer holds the leading bytes that it took: all of it when the
  write was complete, a part of it when the writer stopped early.
\<close>

theorem Handle_one_write_call_under_lock:
  assumes "p < length (handlers w)" and "\<not> locked w (mu (handlers w ! p))"
  shows "let h = handlers w ! p;
             h' = removeEmptyGroup h r;
             line = appendHeader L h [] r
                    @ (if Multiline (opts h)
                       then multilineGoas L h' (goas h') [] 1
                            @ (if rAttrs r = [] then []
                               else CHR 0x0A
                                    # concat (map (\<lambda>a. appendAttr L h' [] a True 1) (rAttrs r)))
                       else inlineGoas L h' (goas h') []
                            @ concat (map (\<lambda>a. appendAttr L h' [] a False 0) (rAttrs r)))
                    @ [CHR 0x0A];
             res = writer w (out h) (trace w @ [EvLock (mu h)]) line
         in trace (fst (Handle L w p r)) =
              trace w @ [EvLock (mu h), EvWrite (out h) line, EvUnlock (mu h)]
          \<and> locked (fst (Handle L w p r)) = locked w
          \<and> snd (Handle L w p r) =
              (case res of Wrote n err \<Rightarrow> Return err | WritePanics n \<Rightarrow> Panic)
          \<and> sunk (fst (Handle L w p r)) (out h) = sunk w (out h) @ take (taken res) line
          \<and> (\<forall>ref. ref \<noteq> out h \<longrightarrow> sunk (fst (Handle L w p r)) ref = sunk w ref)"
proof -
  let ?h = "handlers w ! p"
  let ?h' = "removeEmptyGroup ?h r"
  have l: "(locked w)(mu ?h := False) = locked w"
    using assms(2) by (simp add: fun_upd_idem)
  have line: "rendered_line L ?h' r =
      appendHeader L ?h [] r
      @ (if Multiline (opts ?h)
         then multilineGoas L ?h' (goas ?h') [] 1
              @ (if rAttrs r = [] then []
                 else CHR 0x0A # concat (map (\<lambda>a. appendAttr L ?h' [] a True 1) (rAttrs r)))
         else inlineGoas L ?h' (goas ?h') []
              @ concat (map (\<lambda>a. appendAttr L ?h' [] a False 0) (rAttrs r)))
      @ [CHR 0x0A]"
    by (simp only: rendered_line_parts [of L ?h' r] appendHeader_removeEmptyGroup
        opts_removeEmptyGroup)
  have t: "trace (fst (Handle L w p r)) =
      trace w @ [EvLock (mu ?h), EvWrite (out ?h) (rendered_line L ?h' r), EvUnlock (mu ?h)]"
    and k: "locked (fst (Handle L w p r)) = locked w"
    and s: "snd (Handle L w p r) =
      (case writer w (out ?h) (trace w @ [EvLock (mu ?h)]) (rendered_line L ?h' r) of
         Wrote n err \<Rightarrow> Return err | WritePanics n \<Rightarrow> Panic)"
    using assms l by (simp_all add: Handle_run Let_def)
  have u: "sunk (fst (Handle L w p r)) ref =
      sunk w ref @
      (if ref = out ?h
       then take (taken (writer w (out ?h) (trace w @ [EvLock (mu ?h)]) (rendered_line L ?h' r)))
              (rendered_line L ?h' r)
       else [])" for ref
    using assms by (rule sunk_Handle)
  show ?thesis
    unfolding Let_def line [symmetric]
    using t k s u by simp
qed

text \<open>
  The multiline handler bound to the group \<open>user\<close> and the attribute \<open>id\<close> writes the
  whole record in one call, and a writer that takes everything holds the whole line.
\<close>

theorem Handle_one_write_call_under_lock_witness:
  "Suc 0 < length (handlers ex_ml_world)
   \<and> \<not> locked ex_ml_world (mu (handlers ex_ml_world ! Suc 0))
   \<and> trace (fst (Handle ex_lib ex_ml_world (Suc 0) ex_record)) =
       [EvLock 0,
        EvWrite 0
          (''<ts> '' @ colorize lightCyan ''INFO'' @ '' '' @ colorize white ''Server started''
            @ ''  '' @ colorize magenta ''user'' @ '':'' @ [CHR 0x0A]
            @ ''    '' @ colorize 0 ''id'' @ '': '' @ colorize 0 ''bob'' @ [CHR 0x0A]
            @ [CHR 0x0A] @ ''  '' @ colorize 0 ''port'' @ '': '' @ colorize 0 ''8080'' @ [CHR 0x0A]
            @ [CHR 0x0A]),
        EvUnlock 0]
   \<and> snd (Handle ex_lib ex_ml_world (Suc 0) ex_record) = Return None
   \<and> sunk (fst (Handle ex_lib ex_ml_world (Suc 0) ex_record)) 0 =
       rendered_line ex_lib ex_ml_user_handler ex_record"
proof -
  have p: "Suc 0 < length (handlers ex_ml_world)"
    and m: "\<not> locked ex_ml_world (mu (handlers ex_ml_world ! Suc 0))"
    by (simp_all add: ex_ml_world_handlers)
  have r: "removeEmptyGroup ex_ml_user_handler ex_record = ex_ml_user_handler"
    by (simp add: removeEmptyGroup_def NumAttrs_def ex_record_def)
  have s0: "sunk ex_ml_world 0 = []"
    by (simp add: sunk_def ex_ml_world_handlers)
  have h: "handlers ex_ml_world ! Suc 0 = ex_ml_user_handler"
    by (simp add: ex_ml_world_handlers)
  note th = Handle_one_write_call_under_lock [OF p m, where L = ex_lib and r = ex_record,
      unfolded Let_def h r, folded rendered_line_parts]
  show ?thesis
    using th p m
    by (simp add: ex_ml_handler_fields ex_ml_world_handlers s0 ex_ml_user_line)
qed

subsection \<open>Attributes that render as nothing\<close>









end
